theory Spec2Isabelle
  imports Main "HOL-Library.Sublist" "HOL-Library.AList"
begin

section \<open>Python values, exceptions and the library functions the program calls\<close>

text \<open>
  The program is one Python module, \<open>main.py\<close>. A byte of a \<open>bytes\<close> object is a
  \<open>char\<close> (an 8-bit value), so the byte literals of the source are string literals here
  (\<open>b'\x74'\<close> is the letter t). Python text is a \<open>string\<close> with one element per code
  point, which restricts text to code points below 256.
\<close>

type_synonym byte = char
type_synonym bytes = "char list"

text \<open>
  The values the program handles at run time: what \<open>json.loads\<close> returns (None, booleans,
  integers, text, lists, dictionaries in insertion order) and what \<open>javaobj.load\<close>
  returns (instances of library classes). An instance is its qualified class name and its
  \<open>__dict__\<close> in insertion order; its attributes are the entries of its \<open>__dict__\<close>.
  Floating-point numbers are left out: the program never inspects a number.
\<close>

datatype pyval =
    PNone
  | PBool bool
  | PInt int
  | PStr string
  | PList "pyval list"
  | PDict "(pyval \<times> pyval) list"
  | PObj string "(string \<times> pyval) list"

text \<open>
  The exceptions that can travel through the program. \<open>FileNotFoundError\<close> carries the
  message the source builds; \<open>UnboundLocalError\<close> carries the name of the local variable
  that was read before any assignment; \<open>OtherError\<close> is any other exception class raised
  inside a library call, by its name.
\<close>

datatype error =
    FileNotFoundError string
  | IsADirectoryError string
  | UnboundLocalError string
  | JSONDecodeError
  | TypeError
  | AttributeError
  | KeyError
  | OtherError string

text \<open>
  The file system as the program sees it: a path names nothing, a directory, or a regular
  file with its bytes.
\<close>

datatype node = File bytes | Dir

type_synonym filesystem = "string \<Rightarrow> node option"

text \<open>
  Functions of the Python runtime and of third-party packages that \<open>main.py\<close> calls and
  does not define. They are parameters of the model, each a function of its argument:
  \<^item> \<open>utf8_ignore\<close>: \<open>bytes.decode('utf-8', errors='ignore')\<close>, which never raises;
  \<^item> \<open>text_decode\<close>: the decoding done by reading a file opened in text mode;
  \<^item> \<open>json_loads\<close>: \<open>json.loads\<close>, raising \<open>JSONDecodeError\<close> or something else;
  \<^item> \<open>javaobj_load\<close>: \<open>javaobj.v2.load\<close> on the bytes from the current file position;
  \<^item> \<open>py_str\<close>: the builtin \<open>str\<close> on a value;
  \<^item> \<open>exc_str\<close>: the builtin \<open>str\<close> on an exception.
\<close>

record pylib =
  utf8_ignore :: "bytes \<Rightarrow> string"
  text_decode :: "bytes \<Rightarrow> error + string"
  json_loads :: "string \<Rightarrow> error + pyval"
  javaobj_load :: "bytes \<Rightarrow> error + pyval"
  py_str :: "pyval \<Rightarrow> string"
  exc_str :: "error \<Rightarrow> string"

section \<open>Searching and slicing byte strings\<close>

text \<open>
  \<open>find_first sub xs\<close> is the lowest index at which \<open>sub\<close> occurs in \<open>xs\<close>.
  \<open>py_find data sub start\<close> is \<open>data.find(sub, start)\<close> for \<open>start \<ge> 0\<close>: the lowest
  index not below \<open>start\<close> at which \<open>sub\<close> occurs, and \<open>-1\<close> when there is none.
\<close>

fun find_first :: "'a list \<Rightarrow> 'a list \<Rightarrow> nat option" where
  "find_first sub [] = (if sub = [] then Some 0 else None)"
| "find_first sub (x # xs) =
     (if prefix sub (x # xs) then Some 0 else map_option Suc (find_first sub xs))"

definition py_find :: "'a list \<Rightarrow> 'a list \<Rightarrow> nat \<Rightarrow> int" where
  "py_find data sub start =
     (if length data < start then - 1
      else case find_first sub (drop start data) of
             None \<Rightarrow> - 1
           | Some i \<Rightarrow> int (start + i))"

text \<open>\<open>py_slice data a b\<close> is \<open>data[a:b]\<close> for non-negative \<open>a\<close> and \<open>b\<close>.\<close>

definition py_slice :: "'a list \<Rightarrow> int \<Rightarrow> int \<Rightarrow> 'a list" where
  "py_slice data a b = take (nat b - nat a) (drop (nat a) data)"

text \<open>
  \<open>re.findall(b'[\x20-\x7e]{10,}', data)\<close>: the maximal runs of printable bytes that are
  at least ten bytes long, from left to right. The first argument of \<open>printable_runs\<close> is
  the run being read, reversed.
\<close>

definition printable :: "byte \<Rightarrow> bool" where
  "printable c = (32 \<le> (of_char c :: nat) \<and> (of_char c :: nat) \<le> 126)"

definition close_run :: "bytes \<Rightarrow> bytes list" where
  "close_run cur = (if 10 \<le> length cur then [rev cur] else [])"

fun printable_runs :: "bytes \<Rightarrow> bytes \<Rightarrow> bytes list" where
  "printable_runs cur [] = close_run cur"
| "printable_runs cur (c # cs) =
     (if printable c then printable_runs (c # cur) cs
      else close_run cur @ printable_runs [] cs)"

section \<open>\<open>parse_qpdata\<close>\<close>

text \<open>
  The dictionary \<open>result\<close>. The keys \<open>version\<close>, \<open>metadata\<close>, \<open>hierarchy\<close> and
  \<open>raw_strings\<close> are set when it is created; \<open>metadata_raw\<close> is a fifth key, present
  only after a \<open>JSONDecodeError\<close>.
\<close>

record qp_result =
  version :: "string option"
  metadata :: pyval
  metadata_raw :: "string option"
  hierarchy :: pyval
  raw_strings :: "string list"

definition empty_result :: qp_result where
  "empty_result =
     \<lparr>version = None, metadata = PNone, metadata_raw = None, hierarchy = PNone,
      raw_strings = []\<rparr>"

definition version_prefix :: bytes where
  "version_prefix = ''Data file version''"

definition json_pattern :: bytes where
  "json_pattern = ''{\"dataVersion\"''"

definition stream_marker :: bytes where
  "stream_marker = ''}sr ''"

text \<open>Step 1 (lines 27 to 31): the version header.\<close>

definition version_step :: "pylib \<Rightarrow> bytes \<Rightarrow> qp_result \<Rightarrow> qp_result" where
  "version_step L data result =
     (if prefix version_prefix data then
        (let version_end = py_find data ''t'' 19 in
         if version_end > 0
         then result\<lparr>version := Some (utf8_ignore L (py_slice data 19 version_end))\<rparr>
         else result)
      else result)"

text \<open>
  Step 2 (lines 33 to 47): the JSON text. The step returns the local variable
  \<open>json_end\<close> with the result: \<open>None\<close> when no assignment to it was executed. An
  exception of \<open>json.loads\<close> other than \<open>JSONDecodeError\<close> is not caught.
\<close>

definition json_step :: "pylib \<Rightarrow> bytes \<Rightarrow> qp_result \<Rightarrow> error + (int option \<times> qp_result)" where
  "json_step L data result =
     (let json_start = py_find data json_pattern 0 in
      if json_start > 0 then
        (let json_end = py_find data stream_marker (nat json_start) in
         if json_end > 0 then
           (let json_end = json_end + 1;
                json_str = utf8_ignore L (py_slice data json_start json_end)
            in case json_loads L json_str of
                 Inr v \<Rightarrow> Inr (Some json_end, result\<lparr>metadata := v\<rparr>)
               | Inl JSONDecodeError \<Rightarrow>
                   Inr (Some json_end, result\<lparr>metadata_raw := Some (take 500 json_str)\<rparr>)
               | Inl e \<Rightarrow> Inl e)
         else Inr (Some json_end, result))
      else Inr (None, result))"

text \<open>Step 3 (lines 49 to 52): the first thirty readable strings.\<close>

definition strings_step :: "bytes \<Rightarrow> qp_result \<Rightarrow> qp_result" where
  "strings_step data result = result\<lparr>raw_strings := take 30 (printable_runs [] data)\<rparr>"

text \<open>
  Step 4 (lines 54 to 62): the serialized objects. Reading \<open>json_end\<close> when it was never
  assigned raises \<open>UnboundLocalError\<close>. Any exception of \<open>javaobj.load\<close> is caught and
  dropped.
\<close>

definition hierarchy_step :: "pylib \<Rightarrow> bytes \<Rightarrow> int option \<Rightarrow> qp_result \<Rightarrow> error + qp_result" where
  "hierarchy_step L data json_end result =
     (case json_end of
        None \<Rightarrow> Inl (UnboundLocalError ''json_end'')
      | Some je \<Rightarrow>
          if je \<noteq> 0 \<and> je > 0 then
            (let java_start = je + 2 in
             case javaobj_load L (drop (nat java_start) data) of
               Inr pobj \<Rightarrow> Inr (result\<lparr>hierarchy := pobj\<rparr>)
             | Inl e \<Rightarrow> Inr result)
          else Inr result)"

definition parse_qpdata :: "pylib \<Rightarrow> filesystem \<Rightarrow> string \<Rightarrow> error + qp_result" where
  "parse_qpdata L fs file_path =
     (case fs file_path of
        None \<Rightarrow> Inl (FileNotFoundError (''File not found: '' @ file_path))
      | Some Dir \<Rightarrow> Inl (IsADirectoryError file_path)
      | Some (File data) \<Rightarrow>
          (let result = version_step L data empty_result in
           case json_step L data result of
             Inl e \<Rightarrow> Inl e
           | Inr (json_end, result) \<Rightarrow>
               hierarchy_step L data json_end (strings_step data result)))"

section \<open>Python operations on values\<close>

text \<open>
  \<open>str.lower\<close> on code points below 256: the ASCII capitals and the capitals of
  Latin-1 move up by 32.
\<close>

definition lower_char :: "char \<Rightarrow> char" where
  "lower_char c =
     (let n = (of_char c :: nat)
      in if (65 \<le> n \<and> n \<le> 90) \<or> (192 \<le> n \<and> n \<le> 222 \<and> n \<noteq> 215)
         then char_of (n + 32) else c)"

definition py_lower :: "string \<Rightarrow> string" where
  "py_lower s = map lower_char s"

text \<open>\<open>a in b\<close> on two pieces of text is \<open>sublist a b\<close>: \<open>a\<close> occurs in \<open>b\<close>.\<close>

text \<open>\<open>type(v).__name__\<close> with its module, and \<open>str(type(v))\<close>.\<close>

fun type_name :: "pyval \<Rightarrow> string" where
  "type_name PNone = ''NoneType''"
| "type_name (PBool b) = ''bool''"
| "type_name (PInt n) = ''int''"
| "type_name (PStr s) = ''str''"
| "type_name (PList xs) = ''list''"
| "type_name (PDict kvs) = ''dict''"
| "type_name (PObj c d) = c"

definition type_str :: "pyval \<Rightarrow> string" where
  "type_str v = ''<class '' @ [CHR 0x27] @ type_name v @ [CHR 0x27] @ ''>''"

text \<open>
  \<open>v.__dict__\<close> (only instances have one) and instance attributes:
  \<open>hasattr(v, a)\<close> is \<open>py_getattr v a \<noteq> None\<close>.
\<close>

fun py_dict :: "pyval \<Rightarrow> (string \<times> pyval) list option" where
  "py_dict (PObj c d) = Some d"
| "py_dict v = None"

fun py_getattr :: "pyval \<Rightarrow> string \<Rightarrow> pyval option" where
  "py_getattr (PObj c d) a = map_of d a"
| "py_getattr v a = None"

text \<open>
  Calling a method that only dictionaries have: on an instance with an attribute of that
  name the call fails because the attribute is no function, elsewhere the attribute is
  missing.
\<close>

fun no_method :: "pyval \<Rightarrow> string \<Rightarrow> error" where
  "no_method (PObj c d) m = (if map_of d m = None then AttributeError else TypeError)"
| "no_method v m = AttributeError"

text \<open>\<open>for x in v\<close>: the elements of a list, the keys of a dictionary, the characters of a text.\<close>

fun py_iter :: "pyval \<Rightarrow> error + pyval list" where
  "py_iter (PList xs) = Inr xs"
| "py_iter (PDict kvs) = Inr (map fst kvs)"
| "py_iter (PStr s) = Inr (map (\<lambda>c. PStr [c]) s)"
| "py_iter v = Inl TypeError"

text \<open>\<open>v.items()\<close>.\<close>

fun py_items :: "pyval \<Rightarrow> error + (pyval \<times> pyval) list" where
  "py_items (PDict kvs) = Inr kvs"
| "py_items v = Inl (no_method v ''items'')"

text \<open>\<open>k in v\<close> for a text \<open>k\<close>.\<close>

fun py_in :: "string \<Rightarrow> pyval \<Rightarrow> error + bool" where
  "py_in k (PDict kvs) = Inr (map_of kvs (PStr k) \<noteq> None)"
| "py_in k (PList xs) = Inr (List.member xs (PStr k))"
| "py_in k (PStr s) = Inr (sublist k s)"
| "py_in k v = Inl TypeError"

text \<open>\<open>v[k]\<close> for a text \<open>k\<close>.\<close>

fun py_getitem :: "pyval \<Rightarrow> string \<Rightarrow> error + pyval" where
  "py_getitem (PDict kvs) k =
     (case map_of kvs (PStr k) of None \<Rightarrow> Inl KeyError | Some v \<Rightarrow> Inr v)"
| "py_getitem v k = Inl TypeError"

text \<open>\<open>v.get(k, dflt)\<close> for a text \<open>k\<close>.\<close>

fun py_get :: "pyval \<Rightarrow> string \<Rightarrow> pyval \<Rightarrow> error + pyval" where
  "py_get (PDict kvs) k dflt =
     Inr (case map_of kvs (PStr k) of None \<Rightarrow> dflt | Some v \<Rightarrow> v)"
| "py_get v k dflt = Inl (no_method v ''get'')"

text \<open>The truth value of \<open>v\<close> in a condition.\<close>

fun py_truthy :: "pyval \<Rightarrow> bool" where
  "py_truthy PNone = False"
| "py_truthy (PBool b) = b"
| "py_truthy (PInt n) = (n \<noteq> 0)"
| "py_truthy (PStr s) = (s \<noteq> [])"
| "py_truthy (PList xs) = (xs \<noteq> [])"
| "py_truthy (PDict kvs) = (kvs \<noteq> [])"
| "py_truthy (PObj c d) = True"

text \<open>Sequencing two steps of which the first may raise.\<close>

definition bindE :: "error + 'a \<Rightarrow> ('a \<Rightarrow> error + 'b) \<Rightarrow> error + 'b" where
  "bindE m f = (case m of Inl e \<Rightarrow> Inl e | Inr x \<Rightarrow> f x)"

section \<open>\<open>extract_annotation_info\<close> and \<open>extract_annotations\<close>\<close>

record annotation_info =
  info_type :: string
  attributes :: "(string \<times> string) list"

definition property_keywords :: "string list" where
  "property_keywords = [''name'', ''class'', ''type'', ''roi'', ''geometry'', ''measurement'']"

text \<open>The condition of line 119.\<close>

definition is_key_property :: "string \<Rightarrow> bool" where
  "is_key_property key = list_ex (\<lambda>keyword. sublist keyword (py_lower key)) property_keywords"

text \<open>
  One turn of the loop of lines 117 to 120. Assigning to a key of the dictionary
  \<open>attributes\<close> replaces the value of a key already there and appends a new key.
\<close>

definition store_attribute ::
  "pylib \<Rightarrow> string \<times> pyval \<Rightarrow> (string \<times> string) list \<Rightarrow> (string \<times> string) list" where
  "store_attribute L kv attrs =
     (if is_key_property (fst kv)
      then AList.update (fst kv) (take 200 (py_str L (snd kv))) attrs
      else attrs)"

definition extract_annotation_info :: "pylib \<Rightarrow> pyval \<Rightarrow> annotation_info" where
  "extract_annotation_info L ann_obj =
     (let info = \<lparr>info_type = type_str ann_obj, attributes = []\<rparr>
      in case py_dict ann_obj of
           None \<Rightarrow> info
         | Some d \<Rightarrow> info\<lparr>attributes := fold (store_attribute L) d []\<rparr>)"

text \<open>
  The statements inside the \<open>try\<close> of \<open>extract_annotations\<close>. Each returns the list
  \<open>annotations\<close> as it stands when the statement ends, with the exception that ended it,
  if one did.
\<close>

text \<open>One turn of the loop of lines 86 to 93.\<close>

definition collect_attribute ::
  "pylib \<Rightarrow> string \<times> pyval \<Rightarrow> annotation_info list \<Rightarrow> annotation_info list" where
  "collect_attribute L kv annotations =
     (if sublist ''pathobject'' (py_lower (fst kv)) \<or> sublist ''annotation'' (py_lower (fst kv))
      then (case snd kv of
              PList items \<Rightarrow> annotations @ map (extract_annotation_info L) items
            | value \<Rightarrow> annotations @ [extract_annotation_info L value])
      else annotations)"

text \<open>Lines 80 to 93.\<close>

definition direct_annotations ::
  "pylib \<Rightarrow> pyval \<Rightarrow> annotation_info list \<Rightarrow> error option \<times> annotation_info list" where
  "direct_annotations L qpdata_obj annotations =
     (case py_getattr qpdata_obj ''annotations'' of
        Some anns \<Rightarrow>
          (case py_iter anns of
             Inl e \<Rightarrow> (Some e, annotations)
           | Inr items \<Rightarrow> (None, annotations @ map (extract_annotation_info L) items))
      | None \<Rightarrow>
          (case py_dict qpdata_obj of
             Some d \<Rightarrow> (None, fold (collect_attribute L) d annotations)
           | None \<Rightarrow> (None, annotations)))"

text \<open>One turn of the loop of lines 97 to 99.\<close>

definition collect_entry ::
  "pylib \<Rightarrow> pyval \<times> pyval \<Rightarrow> annotation_info list \<Rightarrow> annotation_info list" where
  "collect_entry L kv annotations =
     (if sublist ''annotation'' (py_lower (py_str L (fst kv)))
      then annotations @ [extract_annotation_info L (snd kv)]
      else annotations)"

text \<open>Lines 95 to 99.\<close>

definition map_annotations ::
  "pylib \<Rightarrow> pyval \<Rightarrow> annotation_info list \<Rightarrow> error option \<times> annotation_info list" where
  "map_annotations L qpdata_obj annotations =
     (case py_getattr qpdata_obj ''map'' of
        None \<Rightarrow> (None, annotations)
      | Some m \<Rightarrow>
          (case py_items m of
             Inl e \<Rightarrow> (Some e, annotations)
           | Inr kvs \<Rightarrow> (None, fold (collect_entry L) kvs annotations)))"

text \<open>
  The whole function: the \<open>except\<close> clause catches every exception of the two
  statements, prints it, and the function returns the list as it stands.
\<close>

definition extract_annotations :: "pylib \<Rightarrow> pyval \<Rightarrow> error + annotation_info list" where
  "extract_annotations L qpdata_obj =
     (if qpdata_obj = PNone then Inr []
      else case direct_annotations L qpdata_obj [] of
             (Some e, annotations) \<Rightarrow> Inr annotations
           | (None, annotations) \<Rightarrow>
               (case map_annotations L qpdata_obj annotations of
                  (Some e, annotations) \<Rightarrow> Inr annotations
                | (None, annotations) \<Rightarrow> Inr annotations))"

section \<open>The loop of \<open>get_qupath_info\<close> over the images of a project\<close>

text \<open>
  Lines 145 to 216 of \<open>get_qupath_info\<close>: the loop over the list \<open>images\<close> of the
  project file. What the lines before the loop computed is given: the directory
  \<open>data_path\<close>, the dictionary \<open>classes\<close> and the list \<open>images\<close>. Printing is left
  out, the evaluation of what is printed is not, since it can raise.
\<close>

record parsed_data =
  has_metadata :: bool
  has_hierarchy :: bool
  pd_version :: "string option"

text \<open>The dictionary \<open>image_info\<close>: a field is \<open>None\<close> while its key is absent.\<close>

record image_info =
  img_uri :: "pyval option"
  img_entryID :: "pyval option"
  img_summary :: "pyval option"
  img_data_path :: "string option"
  img_metadata :: "pyval option"
  img_parsed_data :: "parsed_data option"
  img_classes :: "(pyval \<times> pyval) list option"
  img_error :: "string option"

definition empty_info :: image_info where
  "empty_info =
     \<lparr>img_uri = None, img_entryID = None, img_summary = None, img_data_path = None,
      img_metadata = None, img_parsed_data = None, img_classes = None, img_error = None\<rparr>"

text \<open>\<open>os.path.join\<close> of two components and \<open>os.path.exists\<close>, on a POSIX system.\<close>

definition os_path_join :: "string \<Rightarrow> string \<Rightarrow> string" where
  "os_path_join a b =
     (if prefix ''/'' b then b
      else if a = [] \<or> suffix ''/'' a then a @ b
      else a @ ''/'' @ b)"

definition os_path_exists :: "filesystem \<Rightarrow> string \<Rightarrow> bool" where
  "os_path_exists fs p = (fs p \<noteq> None)"

text \<open>\<open>json.load\<close> on a file opened for reading text, given what the path names.\<close>

fun read_json :: "pylib \<Rightarrow> string \<Rightarrow> node \<Rightarrow> error + pyval" where
  "read_json L p Dir = Inl (IsADirectoryError p)"
| "read_json L p (File content) = bindE (text_decode L content) (json_loads L)"

text \<open>Printing \<open>v.get(...)\<close>: the call raises unless \<open>v\<close> is a dictionary.\<close>

definition print_get :: "pyval \<Rightarrow> error + unit" where
  "print_get v = bindE (py_get v [] PNone) (\<lambda>_. Inr ())"

text \<open>Lines 161 to 169: what is evaluated to print the summary when \<open>verbose\<close> is set.\<close>

definition print_summary :: "pyval \<Rightarrow> error + unit" where
  "print_summary summary =
     bindE (print_get summary) (\<lambda>_.
     bindE (py_in ''hierarchy'' summary) (\<lambda>has_hier.
       if has_hier
       then bindE (py_getitem summary ''hierarchy'') print_get
       else Inr ()))"

text \<open>Lines 181 to 198: what is evaluated on the metadata before it is stored.\<close>

definition inspect_metadata :: "bool \<Rightarrow> pyval \<Rightarrow> error + unit" where
  "inspect_metadata verbose md =
     bindE (if verbose then print_get md else Inr ()) (\<lambda>_.
     bindE (py_in ''server'' md) (\<lambda>has_server.
       if has_server then
         bindE (py_getitem md ''server'') (\<lambda>server.
         bindE (py_in ''metadata'' server) (\<lambda>has_meta.
           if has_meta then
             bindE (py_getitem server ''metadata'') (\<lambda>img_meta.
               if verbose then print_get img_meta else Inr ())
           else Inr ()))
       else Inr ()))"

text \<open>
  Lines 177 to 207, the body of the \<open>try\<close>: an exception leaves it at once, so the
  assignments after the point of the exception are not made.
\<close>

definition try_body ::
  "pylib \<Rightarrow> filesystem \<Rightarrow> (pyval \<times> pyval) list \<Rightarrow> bool \<Rightarrow> nat \<Rightarrow> string \<Rightarrow> image_info
     \<Rightarrow> error + image_info" where
  "try_body L fs classes verbose idx qpdata_path info =
     bindE (parse_qpdata L fs qpdata_path) (\<lambda>parsed.
     bindE (if (idx = 1 \<or> verbose) \<and> py_truthy (metadata parsed)
            then bindE (inspect_metadata verbose (metadata parsed))
                   (\<lambda>_. Inr (info\<lparr>img_metadata := Some (metadata parsed)\<rparr>))
            else Inr info) (\<lambda>info.
     Inr (info\<lparr>img_parsed_data :=
                  Some \<lparr>has_metadata = (metadata parsed \<noteq> PNone),
                        has_hierarchy = (hierarchy parsed \<noteq> PNone),
                        pd_version = version parsed\<rparr>,
                img_classes := Some classes\<rparr>)))"

text \<open>
  Lines 171 to 214: the \<open>try\<close> with its \<open>except Exception\<close>, which stores the text of
  the exception under the key \<open>error\<close>. No assignment of the body before the one to
  \<open>parsed_data\<close> survives an exception, since the metadata is stored after its inspection.
\<close>

definition parse_entry ::
  "pylib \<Rightarrow> filesystem \<Rightarrow> (pyval \<times> pyval) list \<Rightarrow> bool \<Rightarrow> nat \<Rightarrow> string \<Rightarrow> image_info
     \<Rightarrow> image_info" where
  "parse_entry L fs classes verbose idx image_data_path info =
     (let qpdata_path = os_path_join image_data_path ''data.qpdata'';
          info = info\<lparr>img_data_path := Some qpdata_path\<rparr>
      in case try_body L fs classes verbose idx qpdata_path info of
           Inr info' \<Rightarrow> info'
         | Inl e \<Rightarrow> info\<lparr>img_error := Some (exc_str L e)\<rparr>)"

text \<open>Lines 155 to 169: the summary file of the image, when there is one.\<close>

definition read_summary ::
  "pylib \<Rightarrow> filesystem \<Rightarrow> bool \<Rightarrow> string \<Rightarrow> image_info \<Rightarrow> error + image_info" where
  "read_summary L fs verbose image_data_path info =
     (let summary_path = os_path_join image_data_path ''summary.json''
      in case fs summary_path of
           None \<Rightarrow> Inr info
         | Some n \<Rightarrow>
             bindE (read_json L summary_path n) (\<lambda>summary.
             bindE (if verbose then print_summary summary else Inr ()) (\<lambda>_.
             Inr (info\<lparr>img_summary := Some summary\<rparr>))))"

text \<open>Lines 147 to 216: one turn of the loop, for the image number \<open>idx\<close>.\<close>

definition process_image ::
  "pylib \<Rightarrow> filesystem \<Rightarrow> string \<Rightarrow> (pyval \<times> pyval) list \<Rightarrow> bool \<Rightarrow> nat \<Rightarrow> pyval
     \<Rightarrow> error + image_info" where
  "process_image L fs data_path classes verbose idx img =
     bindE (py_in ''serverBuilder'' img) (\<lambda>has_builder.
     bindE (if has_builder
            then bindE (py_getitem img ''serverBuilder'') (\<lambda>server_builder.
                 bindE (py_get server_builder ''uri'' (PStr ''Unknown'')) (\<lambda>u.
                 Inr (empty_info\<lparr>img_uri := Some u\<rparr>)))
            else Inr empty_info) (\<lambda>info.
     bindE (py_in ''entryID'' img) (\<lambda>has_entry.
       if has_entry then
         bindE (py_getitem img ''entryID'') (\<lambda>entry.
           let info = info\<lparr>img_entryID := Some entry\<rparr>;
               image_data_path = os_path_join data_path (py_str L entry)
           in if os_path_exists fs image_data_path
              then bindE (read_summary L fs verbose image_data_path info)
                     (\<lambda>info. Inr (parse_entry L fs classes verbose idx image_data_path info))
              else Inr info)
       else Inr info)))"

text \<open>The loop: an exception of one turn ends the whole function.\<close>

fun process_images ::
  "pylib \<Rightarrow> filesystem \<Rightarrow> string \<Rightarrow> (pyval \<times> pyval) list \<Rightarrow> bool \<Rightarrow> nat \<Rightarrow> pyval list
     \<Rightarrow> error + image_info list" where
  "process_images L fs data_path classes verbose idx [] = Inr []"
| "process_images L fs data_path classes verbose idx (img # images) =
     bindE (process_image L fs data_path classes verbose idx img) (\<lambda>info.
     bindE (process_images L fs data_path classes verbose (Suc idx) images) (\<lambda>infos.
     Inr (info # infos)))"

section \<open>Notions used to state the properties\<close>

text \<open>
  \<open>first_at sub data start i\<close>: \<open>i\<close> is the first index not below \<open>start\<close> at which
  \<open>sub\<close> occurs in \<open>data\<close>.
\<close>

definition first_at :: "'a list \<Rightarrow> 'a list \<Rightarrow> nat \<Rightarrow> nat \<Rightarrow> bool" where
  "first_at sub data start i =
     (start \<le> i \<and> prefix sub (drop i data) \<and>
      list_all (\<lambda>j. \<not> prefix sub (drop j data)) [start..<i])"

text \<open>
  Two instances of the library functions, for concrete runs. Both decode ASCII bytes to the
  same text, render a text as itself and a \<open>FileNotFoundError\<close> as its message, and have
  a JSON parser that knows one document and rejects every other text. The decoder of
  \<open>strict_lib\<close> raises on every stream; the decoder of \<open>echo_lib\<close> accepts every stream
  and returns the bytes it was given, which shows where the program makes it start.
\<close>

definition str_of_text :: "pyval \<Rightarrow> string" where
  "str_of_text v = (case v of PStr s \<Rightarrow> s | PNone \<Rightarrow> ''None'' | _ \<Rightarrow> [])"

definition str_of_exception :: "error \<Rightarrow> string" where
  "str_of_exception e = (case e of FileNotFoundError m \<Rightarrow> m | _ \<Rightarrow> ''error'')"

definition sample_json_loads :: "string \<Rightarrow> error + pyval" where
  "sample_json_loads s =
     (if s = ''{\"dataVersion\":1}'' then Inr (PDict [(PStr ''dataVersion'', PInt 1)])
      else Inl JSONDecodeError)"

definition strict_lib :: pylib where
  "strict_lib =
     \<lparr>utf8_ignore = (\<lambda>bs. bs), text_decode = Inr,
      json_loads = sample_json_loads,
      javaobj_load = (\<lambda>bs. Inl (OtherError ''ValueError'')),
      py_str = str_of_text, exc_str = str_of_exception\<rparr>"

definition echo_lib :: pylib where
  "echo_lib = strict_lib\<lparr>javaobj_load := (\<lambda>bs. Inr (PStr bs))\<rparr>"

text \<open>A file system with one regular file.\<close>

definition one_file :: "string \<Rightarrow> bytes \<Rightarrow> filesystem" where
  "one_file p data = (\<lambda>q. if q = p then Some (File data) else None)"

text \<open>An annotation object whose name is 250 characters long.\<close>

definition long_name_node :: pyval where
  "long_name_node =
     PObj ''qupath.lib.objects.PathAnnotationObject''
       [(''name'', PStr (replicate 250 (CHR ''a'')))]"

text \<open>
  The keyword set as the specification words it (name, classification/pathClass,
  roi/geometry, measurement), matched without regard to letter case and anywhere in the
  field name.
\<close>

definition spec_keywords :: "string list" where
  "spec_keywords =
     [''name'', ''classification'', ''pathclass'', ''roi'', ''geometry'', ''measurement'']"

definition spec_field_match :: "string \<Rightarrow> bool" where
  "spec_field_match k = list_ex (\<lambda>kw. sublist kw (py_lower k)) spec_keywords"

text \<open>Objects for concrete runs of the extraction.\<close>

definition type_field_node :: pyval where
  "type_field_node =
     PObj ''qupath.lib.objects.PathDetectionObject'' [(''type'', PStr ''detection'')]"

definition mixed_case_node :: pyval where
  "mixed_case_node =
     PObj ''qupath.lib.objects.PathAnnotationObject''
       [(''PathClass'', PStr ''Tumor''), (''zIndex'', PStr ''3'')]"


text \<open>
  Where claim C3 puts the two boundaries, given the index \<open>json_start\<close> of the JSON
  segment: the closing brace is the first one after the start that the two bytes \<open>sr\<close>
  follow, the JSON text ends with it, and the stream begins right after it.
\<close>

definition spec_json_end :: "bytes \<Rightarrow> nat \<Rightarrow> int" where
  "spec_json_end data json_start = py_find data ''}sr'' json_start"

definition spec_json_text :: "bytes \<Rightarrow> nat \<Rightarrow> bytes" where
  "spec_json_text data json_start =
     py_slice data (int json_start) (spec_json_end data json_start + 1)"

definition spec_stream :: "bytes \<Rightarrow> nat \<Rightarrow> bytes" where
  "spec_stream data json_start = drop (nat (spec_json_end data json_start + 1)) data"

text \<open>Container files for concrete runs.\<close>

definition two_marker_container :: bytes where
  "two_marker_container = ''x{\"dataVersion\"}srX}sr AB''"

definition well_formed_container :: bytes where
  "well_formed_container = ''Data file version 1.0t{\"dataVersion\":1}sr XY''"

definition stream_only_container :: bytes where
  "stream_only_container =
     ''Data file version 1.0t'' @ [CHR 0xAC, CHR 0xED, CHR 0x00, CHR 0x05, CHR 0x70]"

definition truncated_container :: bytes where
  "truncated_container =
     ''x{\"dataVersion\":1}sr '' @ [CHR 0xAC, CHR 0xED, CHR 0x00, CHR 0x05]"

text \<open>
  A project with two images. The directory of image 7 holds a data file whose stream the
  decoder cannot read; the directory of image 8 holds no data file.
\<close>

definition project_fs :: filesystem where
  "project_fs =
     (\<lambda>q. if q = ''proj/data/7'' \<or> q = ''proj/data/8'' then Some Dir
          else if q = ''proj/data/7/data.qpdata'' then Some (File truncated_container)
          else None)"

definition image_7 :: pyval where
  "image_7 = PDict [(PStr ''entryID'', PStr ''7'')]"

definition image_8 :: pyval where
  "image_8 = PDict [(PStr ''entryID'', PStr ''8'')]"








text \<open>
  Lines 147 to 170 of a turn of the loop, the statements before the \<open>try\<close>: the fields of
  the image from the project file and its summary file. \<open>image_head\<close> returns the
  dictionary \<open>image_info\<close> as these statements leave it, together with the data
  directory of the image when the turn goes on to the \<open>try\<close>, and \<open>None\<close> when it does
  not (no \<open>entryID\<close>, or no such directory).
\<close>

definition image_head ::
  "pylib \<Rightarrow> filesystem \<Rightarrow> string \<Rightarrow> bool \<Rightarrow> pyval \<Rightarrow> error + (image_info \<times> string option)" where
  "image_head L fs data_path verbose img =
     bindE (py_in ''serverBuilder'' img) (\<lambda>has_builder.
     bindE (if has_builder
            then bindE (py_getitem img ''serverBuilder'') (\<lambda>server_builder.
                 bindE (py_get server_builder ''uri'' (PStr ''Unknown'')) (\<lambda>u.
                 Inr (empty_info\<lparr>img_uri := Some u\<rparr>)))
            else Inr empty_info) (\<lambda>info.
     bindE (py_in ''entryID'' img) (\<lambda>has_entry.
       if has_entry then
         bindE (py_getitem img ''entryID'') (\<lambda>entry.
           let info = info\<lparr>img_entryID := Some entry\<rparr>;
               image_data_path = os_path_join data_path (py_str L entry)
           in if os_path_exists fs image_data_path
              then bindE (read_summary L fs verbose image_data_path info)
                     (\<lambda>info. Inr (info, Some image_data_path))
              else Inr (info, None))
       else Inr (info, None))))"

text \<open>An image of the project list with a \<open>serverBuilder\<close>, for concrete runs.\<close>

definition image_9 :: pyval where
  "image_9 =
     PDict [(PStr ''serverBuilder'', PDict [(PStr ''uri'', PStr ''file:/slides/9.svs'')]),
            (PStr ''entryID'', PStr ''8'')]"

section \<open>Searching: \<open>py_find\<close> returns the first occurrence\<close>

lemma all_less_Suc_shift: "(\<forall>j<Suc k. P j) \<longleftrightarrow> P 0 \<and> (\<forall>j<k. P (Suc j))"
  by (metis less_Suc_eq_0_disj not_less_eq)

lemma find_first_Some_iff:
  "find_first sub xs = Some i \<longleftrightarrow>
     i \<le> length xs \<and> prefix sub (drop i xs) \<and> (\<forall>j<i. \<not> prefix sub (drop j xs))"
proof (induction xs arbitrary: i)
  case Nil
  then show ?case by auto
next
  case (Cons x xs)
  show ?case
  proof (cases "prefix sub (x # xs)")
    case True
    have "(\<forall>j<i. \<not> prefix sub (drop j (x # xs))) \<longleftrightarrow> i = 0"
      using True by (cases i) auto
    with True show ?thesis by auto
  next
    case False
    show ?thesis
    proof (cases i)
      case 0
      with False show ?thesis by simp
    next
      case (Suc k)
      have "(\<forall>j<Suc k. \<not> prefix sub (drop j (x # xs))) \<longleftrightarrow> (\<forall>j<k. \<not> prefix sub (drop j xs))"
        using False by (simp add: all_less_Suc_shift)
      with Suc False Cons.IH[of k] show ?thesis by simp
    qed
  qed
qed

lemma first_at_iff:
  "first_at sub data start i \<longleftrightarrow>
     start \<le> i \<and> prefix sub (drop i data) \<and>
     (\<forall>j. start \<le> j \<and> j < i \<longrightarrow> \<not> prefix sub (drop j data))"
  by (auto simp: first_at_def list_all_iff)

lemma first_at_in_range:
  assumes "sub \<noteq> []" "first_at sub data start i"
  shows "i + length sub \<le> length data"
proof -
  from assms(2) have p: "prefix sub (drop i data)" by (simp add: first_at_iff)
  then have "length sub \<le> length data - i" using prefix_length_le by fastforce
  moreover have "i < length data"
  proof (rule ccontr)
    assume "\<not> i < length data"
    then have "drop i data = []" by simp
    with p assms(1) show False by simp
  qed
  ultimately show ?thesis by simp
qed

lemma py_find_first_at:
  assumes "sub \<noteq> []" "first_at sub data start i"
  shows "py_find data sub start = int i"
proof -
  from assms have le: "i + length sub \<le> length data" by (rule first_at_in_range)
  from assms(2) have fa: "start \<le> i" "prefix sub (drop i data)"
    "\<forall>j. start \<le> j \<and> j < i \<longrightarrow> \<not> prefix sub (drop j data)"
    by (simp_all add: first_at_iff)
  have "find_first sub (drop start data) = Some (i - start)"
    using fa le by (simp add: find_first_Some_iff)
  with fa(1) le show ?thesis by (simp add: py_find_def)
qed

lemma py_find_nonneg:
  assumes "py_find data sub start = int i"
  shows "first_at sub data start i"
proof -
  from assms have le: "start \<le> length data"
    by (simp add: py_find_def split: if_splits)
  from assms le obtain k where "find_first sub (drop start data) = Some k"
      and "int (start + k) = int i"
    by (cases "find_first sub (drop start data)") (simp_all add: py_find_def)
  then have k: "find_first sub (drop start data) = Some k" "i = start + k"
    by simp_all
  from k(1) have found: "prefix sub (drop (start + k) data)"
    and before: "\<forall>j<k. \<not> prefix sub (drop (start + j) data)"
    by (simp_all add: find_first_Some_iff add.commute)
  have "\<forall>j. start \<le> j \<and> j < start + k \<longrightarrow> \<not> prefix sub (drop j data)"
  proof (intro allI impI)
    fix j assume "start \<le> j \<and> j < start + k"
    then have "j - start < k" "start + (j - start) = j" by arith+
    with before show "\<not> prefix sub (drop j data)" by metis
  qed
  with found show ?thesis using k(2) by (simp add: first_at_iff)
qed

lemma py_find_cases: "py_find data sub start = - 1 \<or> (\<exists>i. py_find data sub start = int i)"
proof (cases "find_first sub (drop start data)")
  case None
  then show ?thesis by (simp add: py_find_def)
next
  case (Some k)
  show ?thesis
  proof (cases "length data < start")
    case True
    then show ?thesis by (simp add: py_find_def)
  next
    case False
    with Some have "py_find data sub start = int (start + k)" by (simp add: py_find_def)
    then show ?thesis by blast
  qed
qed

lemma py_find_absent:
  assumes "\<not> sublist sub data"
  shows "py_find data sub start = - 1"
proof -
  have "\<not> (\<exists>i. py_find data sub start = int i)"
  proof
    assume "\<exists>i. py_find data sub start = int i"
    then obtain i where "py_find data sub start = int i" ..
    then have "prefix sub (drop i data)" using py_find_nonneg by (fastforce simp: first_at_iff)
    then have "sublist sub (drop i data)" by (rule prefix_imp_sublist)
    then have "sublist sub data" by (metis sublist_drop sublist_order.order_trans)
    with assms show False by simp
  qed
  with py_find_cases[of data sub start] show ?thesis by blast
qed

section \<open>The attributes of an annotation record\<close>

lemma set_update_subset: "set (AList.update k v al) \<subseteq> insert (k, v) (set al)"
  by (induction al) auto

lemma store_fold_entries:
  "(k, s) \<in> set (fold (store_attribute L) d acc) \<Longrightarrow>
     (k, s) \<in> set acc \<or>
     (\<exists>v. (k, v) \<in> set d \<and> is_key_property k \<and> s = take 200 (py_str L v))"
proof (induction d arbitrary: acc)
  case Nil
  then show ?case by simp
next
  case (Cons x d)
  from Cons.prems have "(k, s) \<in> set (fold (store_attribute L) d (store_attribute L x acc))"
    by simp
  from Cons.IH[OF this] show ?case
  proof
    assume "(k, s) \<in> set (store_attribute L x acc)"
    then have "(k, s) \<in> set acc \<or>
        (is_key_property (fst x) \<and> (k, s) = (fst x, take 200 (py_str L (snd x))))"
      using set_update_subset[of "fst x" "take 200 (py_str L (snd x))" acc]
      by (auto simp: store_attribute_def split: if_splits)
    then show ?thesis
    proof
      assume "(k, s) \<in> set acc" then show ?thesis by simp
    next
      assume "is_key_property (fst x) \<and> (k, s) = (fst x, take 200 (py_str L (snd x)))"
      then have "(k, snd x) \<in> set (x # d) \<and> is_key_property k \<and>
          s = take 200 (py_str L (snd x))"
        by (cases x) auto
      then show ?thesis by blast
    qed
  next
    assume "\<exists>v. (k, v) \<in> set d \<and> is_key_property k \<and> s = take 200 (py_str L v)"
    then show ?thesis by auto
  qed
qed

text \<open>
  Claim C9. Every attribute that \<open>extract_annotation_info\<close> stores is the text of a field
  of the object, as \<open>str\<close> renders it, cut to its first 200 characters; so no attribute
  of an annotation record is longer than 200 characters.
\<close>

theorem attribute_values_truncated:
  "\<forall>(k, s) \<in> set (attributes (extract_annotation_info L ann_obj)).
     length s \<le> 200 \<and>
     (\<exists>d v. py_dict ann_obj = Some d \<and> (k, v) \<in> set d \<and> s = take 200 (py_str L v))"
proof (cases "py_dict ann_obj")
  case None
  then show ?thesis by (simp add: extract_annotation_info_def)
next
  case (Some d)
  have "length s \<le> 200 \<and> (\<exists>v. (k, v) \<in> set d \<and> s = take 200 (py_str L v))"
    if "(k, s) \<in> set (fold (store_attribute L) d [])" for k s
    using store_fold_entries[OF that] by auto
  with Some show ?thesis by (auto simp: extract_annotation_info_def)
qed

theorem attribute_values_truncated_witness:
  "attributes (extract_annotation_info strict_lib long_name_node) =
     [(''name'', replicate 200 (CHR ''a''))] \<and>
   length (replicate 200 (CHR ''a'')) \<le> 200 \<and>
   (\<exists>d v. py_dict long_name_node = Some d \<and> (''name'', v) \<in> set d \<and>
      replicate 200 (CHR ''a'') = take 200 (py_str strict_lib v))"
proof -
  have "attributes (extract_annotation_info strict_lib long_name_node) =
          [(''name'', replicate 200 (CHR ''a''))]"
    by code_simp
  with attribute_values_truncated[of strict_lib long_name_node] show ?thesis
    by simp
qed

lemma store_fold_keys:
  "fst ` set (fold (store_attribute L) d acc) =
     fst ` set acc \<union> {k \<in> fst ` set d. is_key_property k}"
proof (induction d arbitrary: acc)
  case Nil
  then show ?case by simp
next
  case (Cons x d)
  have "fst ` set (store_attribute L x acc) =
        fst ` set acc \<union> (if is_key_property (fst x) then {fst x} else {})"
    by (auto simp: store_attribute_def dom_update)
  then show ?case by (auto simp: Cons.IH)
qed


lemma is_key_property_iff:
  "is_key_property k \<longleftrightarrow>
     (\<exists>kw \<in> {''name'', ''class'', ''type'', ''roi'', ''geometry'', ''measurement''}.
        sublist kw (py_lower k))"
  by (simp add: is_key_property_def property_keywords_def)

lemma extract_annotations_total: "\<exists>anns. extract_annotations L obj = Inr anns"
  by (simp add: extract_annotations_def split: prod.splits option.splits)

text \<open>
  Claim C6, as stated, fails: a field named \<open>type\<close> is kept as an attribute, and
  \<open>type\<close> matches none of the keywords the claim lists.
\<close>

theorem type_field_is_kept:
  "attributes (extract_annotation_info strict_lib type_field_node) = [(''type'', ''detection'')] \<and>
   \<not> spec_field_match ''type''"
  by code_simp

text \<open>
  Claim C6, amended. A field of an annotation object is kept as an attribute exactly when
  its name, in lower case, contains one of \<open>name\<close>, \<open>class\<close>, \<open>type\<close>, \<open>roi\<close>,
  \<open>geometry\<close>, \<open>measurement\<close>; two names that differ in letter case only are treated
  alike.
\<close>

theorem kept_fields_characterised:
  assumes "py_dict node = Some d"
  shows "(k \<in> fst ` set (attributes (extract_annotation_info L node)) \<longleftrightarrow>
            k \<in> fst ` set d \<and>
            (\<exists>kw \<in> {''name'', ''class'', ''type'', ''roi'', ''geometry'', ''measurement''}.
               sublist kw (py_lower k))) \<and>
         (py_lower k' = py_lower k \<longrightarrow>
            (k' \<in> fst ` set (attributes (extract_annotation_info L (PObj c [(k', v)]))) \<longleftrightarrow>
             k \<in> fst ` set (attributes (extract_annotation_info L (PObj c [(k, v)])))))"
proof (intro conjI impI)
  show "k \<in> fst ` set (attributes (extract_annotation_info L node)) \<longleftrightarrow>
            k \<in> fst ` set d \<and>
            (\<exists>kw \<in> {''name'', ''class'', ''type'', ''roi'', ''geometry'', ''measurement''}.
               sublist kw (py_lower k))"
    unfolding is_key_property_iff[symmetric]
    using assms by (simp add: extract_annotation_info_def store_fold_keys)
next
  assume "py_lower k' = py_lower k"
  then have "is_key_property k' = is_key_property k"
    by (simp add: is_key_property_def)
  then show "k' \<in> fst ` set (attributes (extract_annotation_info L (PObj c [(k', v)]))) \<longleftrightarrow>
             k \<in> fst ` set (attributes (extract_annotation_info L (PObj c [(k, v)])))"
    by (cases "is_key_property k") (simp_all add: extract_annotation_info_def store_attribute_def)
qed

theorem kept_fields_characterised_witness:
  "''PathClass'' \<in> fst ` set (attributes (extract_annotation_info strict_lib mixed_case_node)) \<and>
   ''zIndex'' \<notin> fst ` set (attributes (extract_annotation_info strict_lib mixed_case_node))"
proof -
  have d: "py_dict mixed_case_node = Some [(''PathClass'', PStr ''Tumor''), (''zIndex'', PStr ''3'')]"
    by (simp add: mixed_case_node_def)
  have c: "sublist ''class'' (py_lower ''PathClass'')" by code_simp
  have z: "\<not> is_key_property ''zIndex''" by code_simp
  show ?thesis
    using kept_fields_characterised[OF d, of "''PathClass''" strict_lib]
      kept_fields_characterised[OF d, of "''zIndex''" strict_lib] c z
    by (auto simp: is_key_property_iff)
qed

section \<open>\<open>parse_qpdata\<close>: the segments of a container file\<close>

lemma json_step_no_key:
  assumes "py_find data json_pattern 0 \<le> 0"
  shows "json_step L data r = Inr (None, r)"
  using assms by (simp add: json_step_def)

lemma parse_no_key:
  assumes "fs p = Some (File data)" "py_find data json_pattern 0 \<le> 0"
  shows "parse_qpdata L fs p = Inl (UnboundLocalError ''json_end'')"
  using assms by (simp add: parse_qpdata_def json_step_no_key hierarchy_step_def)

lemma json_step_located:
  assumes key: "first_at json_pattern data 0 js" "0 < js"
    and mark: "first_at stream_marker data js e"
  shows "json_step L data r =
     (case json_loads L (utf8_ignore L (take (Suc e - js) (drop js data))) of
        Inr v \<Rightarrow> Inr (Some (int e + 1), r\<lparr>metadata := v\<rparr>)
      | Inl JSONDecodeError \<Rightarrow>
          Inr (Some (int e + 1),
               r\<lparr>metadata_raw :=
                    Some (take 500 (utf8_ignore L (take (Suc e - js) (drop js data))))\<rparr>)
      | Inl x \<Rightarrow> Inl x)"
proof -
  have f1: "py_find data json_pattern 0 = int js"
    using key(1) by (intro py_find_first_at) (simp_all add: json_pattern_def)
  have f2: "py_find data stream_marker js = int e"
    using mark by (intro py_find_first_at) (simp_all add: stream_marker_def)
  have "js \<le> e" using mark by (simp add: first_at_iff)
  with key(2) have pos: "0 < e" by simp
  have sl: "py_slice data (int js) (int e + 1) = take (Suc e - js) (drop js data)"
    by (simp add: py_slice_def nat_add_distrib)
  show ?thesis
    unfolding json_step_def f1 using key(2) pos
    by (simp add: f2 sl Let_def split: sum.splits error.splits)
qed

lemma hierarchy_step_located:
  "hierarchy_step L data (Some (int e + 1)) r =
     Inr (case javaobj_load L (drop (e + 3) data) of
            Inr pobj \<Rightarrow> r\<lparr>hierarchy := pobj\<rparr>
          | Inl x \<Rightarrow> r)"
proof -
  have "nat (int e + 1 + 2) = e + 3" by simp
  then show ?thesis
    by (simp add: hierarchy_step_def Let_def split: sum.splits)
qed

lemma parse_located:
  assumes exists: "fs p = Some (File data)"
    and key: "first_at json_pattern data 0 js" "0 < js"
    and mark: "first_at stream_marker data js e"
  shows "parse_qpdata L fs p =
     (let base = strings_step data (version_step L data empty_result);
          json_str = utf8_ignore L (take (Suc e - js) (drop js data));
          decoded = (\<lambda>r. case javaobj_load L (drop (e + 3) data) of
                           Inr pobj \<Rightarrow> r\<lparr>hierarchy := pobj\<rparr>
                         | Inl x \<Rightarrow> r)
      in case json_loads L json_str of
           Inr v \<Rightarrow> Inr (decoded (base\<lparr>metadata := v\<rparr>))
         | Inl JSONDecodeError \<Rightarrow> Inr (decoded (base\<lparr>metadata_raw := Some (take 500 json_str)\<rparr>))
         | Inl x \<Rightarrow> Inl x)"
  using exists
  by (simp add: parse_qpdata_def json_step_located[OF key mark] hierarchy_step_located
      strings_step_def Let_def split: sum.splits error.splits)

text \<open>
  Claim C3, as stated, fails. In this file the first closing brace that \<open>sr\<close> follows is
  at index 15, so the claim makes the JSON text end there and the stream begin at index
  16. The program looks for the brace followed by \<open>sr\<close> and a space: its JSON text runs to
  index 19, and the decoder is started at index 22, on the space after \<open>sr\<close>.
\<close>

theorem stream_starts_after_marker:
  "parse_qpdata echo_lib (one_file ''f.qpdata'' two_marker_container) ''f.qpdata'' =
     Inr \<lparr>version = None, metadata = PNone,
          metadata_raw = Some ''{\"dataVersion\"}srX}'',
          hierarchy = PStr '' AB'',
          raw_strings = [''x{\"dataVersion\"}srX}sr AB'']\<rparr> \<and>
   spec_json_text two_marker_container 1 = ''{\"dataVersion\"}'' \<and>
   spec_stream two_marker_container 1 = ''srX}sr AB''"
  by code_simp

text \<open>
  Claim C3, amended. When the leading key of the JSON segment first occurs at a positive
  index \<open>js\<close>, and \<open>e\<close> is the first index from \<open>js\<close> on at which the four bytes
  closing brace, s, r, space occur, then the JSON text is the bytes from \<open>js\<close> up to and
  including the brace at \<open>e\<close>, and the decoder is started at index \<open>e + 3\<close>, on the space
  that follows \<open>sr\<close>.
\<close>

theorem json_end_and_stream_start:
  assumes exists: "fs p = Some (File data)"
    and key: "first_at json_pattern data 0 js" "0 < js"
    and mark: "first_at stream_marker data js e"
  shows "parse_qpdata L fs p =
     (let base = strings_step data (version_step L data empty_result);
          json_str = utf8_ignore L (take (Suc e - js) (drop js data));
          decoded = (\<lambda>r. case javaobj_load L (drop (e + 3) data) of
                           Inr pobj \<Rightarrow> r\<lparr>hierarchy := pobj\<rparr>
                         | Inl x \<Rightarrow> r)
      in case json_loads L json_str of
           Inr v \<Rightarrow> Inr (decoded (base\<lparr>metadata := v\<rparr>))
         | Inl JSONDecodeError \<Rightarrow> Inr (decoded (base\<lparr>metadata_raw := Some (take 500 json_str)\<rparr>))
         | Inl x \<Rightarrow> Inl x)"
  using exists key mark
  by (rule parse_located[where fs = fs and p = p])

theorem json_end_and_stream_start_witness:
  "parse_qpdata echo_lib (one_file ''w.qpdata'' well_formed_container) ''w.qpdata'' =
     Inr \<lparr>version = Some ''.0'', metadata = PDict [(PStr ''dataVersion'', PInt 1)],
          metadata_raw = None, hierarchy = PStr '' XY'',
          raw_strings = [''Data file version 1.0t{\"dataVersion\":1}sr XY'']\<rparr>"
proof -
  have h1: "one_file ''w.qpdata'' well_formed_container ''w.qpdata'' =
      Some (File well_formed_container)"
    by (simp add: one_file_def)
  have h2: "first_at json_pattern well_formed_container 0 22" by code_simp
  have h3: "(0::nat) < 22" by simp
  have h4: "first_at stream_marker well_formed_container 22 38" by code_simp
  have run: "(let base = strings_step well_formed_container
                    (version_step echo_lib well_formed_container empty_result);
          json_str = utf8_ignore echo_lib (take (Suc 38 - 22) (drop 22 well_formed_container));
          decoded = (\<lambda>r. case javaobj_load echo_lib (drop (38 + 3) well_formed_container) of
                           Inr pobj \<Rightarrow> r\<lparr>hierarchy := pobj\<rparr>
                         | Inl x \<Rightarrow> r)
      in case json_loads echo_lib json_str of
           Inr v \<Rightarrow> Inr (decoded (base\<lparr>metadata := v\<rparr>))
         | Inl JSONDecodeError \<Rightarrow>
             Inr (decoded (base\<lparr>metadata_raw := Some (take 500 json_str)\<rparr>))
         | Inl x \<Rightarrow> Inl x) =
     Inr \<lparr>version = Some ''.0'', metadata = PDict [(PStr ''dataVersion'', PInt 1)],
          metadata_raw = None, hierarchy = PStr '' XY'',
          raw_strings = [''Data file version 1.0t{\"dataVersion\":1}sr XY'']\<rparr>"
    by code_simp
  show ?thesis
    using json_end_and_stream_start[where fs = "one_file ''w.qpdata'' well_formed_container"
        and p = "''w.qpdata''" and L = echo_lib, OF h1 h2 h3 h4] run
    by (rule trans)
qed

section \<open>\<open>parse_qpdata\<close>: a file without the JSON segment\<close>

lemma absent_key_not_found:
  assumes "\<not> sublist json_pattern data"
  shows "py_find data json_pattern 0 \<le> 0"
  using py_find_absent[OF assms, of 0] by simp

text \<open>
  Claim C1: a container file without the JSON segment must still be parsed, with the JSON
  text recorded as absent. The program breaks this on a file that has the version header
  and a serialized stream and no JSON segment: whatever the decoder and the JSON parser
  are, the parse raises \<open>UnboundLocalError\<close> at line 55, where \<open>json_end\<close> is read and
  was never assigned, and returns no result.
\<close>

theorem missing_json_aborts_parse:
  "parse_qpdata L (one_file ''a.qpdata'' stream_only_container) ''a.qpdata'' =
     Inl (UnboundLocalError ''json_end'')"
proof -
  have "\<not> sublist json_pattern stream_only_container" by code_simp
  then have "py_find stream_only_container json_pattern 0 \<le> 0"
    by (rule absent_key_not_found)
  then show ?thesis by (simp add: parse_no_key one_file_def)
qed

text \<open>The header step leaves the result as it is when the file has no version header.\<close>

lemma version_step_without_prefix:
  assumes "\<not> prefix version_prefix data"
  shows "version_step L data r = r"
  using assms by (simp add: version_step_def)

lemma headerless_version_absent:
  assumes "fs p = Some (File data)" and "\<not> prefix version_prefix data"
    and "parse_qpdata L fs p = Inr r"
  shows "version r = None"
proof -
  have js: "json_step L data empty_result = Inr (je, r') \<Longrightarrow> version r' = None" for je r'
    by (auto simp: json_step_def empty_result_def Let_def
        split: if_splits sum.splits error.splits)
  have hs: "hierarchy_step L data je r' = Inr r \<Longrightarrow> version r = version r'" for je r'
    by (auto simp: hierarchy_step_def Let_def split: option.splits if_splits sum.splits)
  from assms obtain je r' where "json_step L data empty_result = Inr (je, r')"
    and "hierarchy_step L data je (strings_step data r') = Inr r"
    by (auto simp: parse_qpdata_def version_step_without_prefix split: sum.splits)
  then show ?thesis using js hs by (simp add: strings_step_def)
qed

text \<open>A path that names nothing makes \<open>parse_qpdata\<close> raise at line 14.\<close>

lemma missing_path_raises:
  assumes "fs p = None"
  shows "parse_qpdata L fs p = Inl (FileNotFoundError (''File not found: '' @ p))"
  using assms by (simp add: parse_qpdata_def)

text \<open>
  Claim C2: a file that does not start with the version header must still be parsed.
  The program breaks this on the file with the bytes \<open>QuPath project data\<close>: the header
  step leaves the version absent and the search for the JSON segment runs, but the parse
  then raises \<open>UnboundLocalError\<close> at line 55, where \<open>json_end\<close> is read and was never
  assigned.
\<close>

theorem headerless_file_raises:
  "parse_qpdata L (one_file ''a.qpdata'' ''QuPath project data'') ''a.qpdata'' =
     Inl (UnboundLocalError ''json_end'')"
proof -
  have "py_find ''QuPath project data'' json_pattern 0 \<le> 0" by code_simp
  then show ?thesis by (simp add: parse_no_key one_file_def)
qed

text \<open>
  Claim C10: when the path exists, the parse returns the dictionary with its four keys.
  The program breaks this on an existing empty file: the path exists, and the parse raises
  \<open>UnboundLocalError\<close> at line 55 and returns nothing.
\<close>

theorem existing_empty_file_raises:
  "os_path_exists (one_file ''empty.qpdata'' []) ''empty.qpdata'' \<and>
   parse_qpdata L (one_file ''empty.qpdata'' []) ''empty.qpdata'' =
     Inl (UnboundLocalError ''json_end'')"
proof -
  have "py_find ([] :: bytes) json_pattern 0 \<le> 0" by code_simp
  then show ?thesis by (simp add: parse_no_key one_file_def os_path_exists_def)
qed

section \<open>\<open>parse_qpdata\<close>: a stream that cannot be decoded\<close>

text \<open>
  Claim C8, as stated, fails. The stream of this file is cut right after its magic bytes
  and version, and the decoder raises on it. The parse reports no error: it returns its
  result, in which the hierarchy is absent.
\<close>

theorem truncated_stream_is_silent:
  "parse_qpdata strict_lib (one_file ''t.qpdata'' truncated_container) ''t.qpdata'' =
     Inr \<lparr>version = None, metadata = PDict [(PStr ''dataVersion'', PInt 1)],
          metadata_raw = None, hierarchy = PNone,
          raw_strings = [''x{\"dataVersion\":1}sr '']\<rparr>"
  by code_simp

lemma base_hierarchy:
  "hierarchy (strings_step data (version_step L data empty_result)) = PNone"
  by (simp add: strings_step_def version_step_def empty_result_def Let_def)

text \<open>
  Claim C8, amended. When the decoder raises on the stream of a file, for a truncated
  stream or for any other reason, \<open>parse_qpdata\<close> catches the exception and drops it: it
  returns its result with the hierarchy absent. The only exception that can leave the
  parse of such a file is one of the JSON parser that is not a \<open>JSONDecodeError\<close>;
  no error of the decoder, and no offset, is reported.
\<close>

theorem decode_error_is_swallowed:
  assumes exists: "fs p = Some (File data)"
    and key: "first_at json_pattern data 0 js" "0 < js"
    and mark: "first_at stream_marker data js e"
    and fails: "javaobj_load L (drop (e + 3) data) = Inl x"
  shows "case parse_qpdata L fs p of
           Inr r \<Rightarrow> hierarchy r = PNone
         | Inl err \<Rightarrow>
             json_loads L (utf8_ignore L (take (Suc e - js) (drop js data))) = Inl err \<and>
             err \<noteq> JSONDecodeError"
  unfolding parse_located[where fs = fs and p = p, OF exists key mark]
  using fails by (simp add: Let_def base_hierarchy split: sum.splits error.splits)

theorem decode_error_is_swallowed_witness:
  "\<exists>r. parse_qpdata strict_lib (one_file ''t.qpdata'' truncated_container) ''t.qpdata'' = Inr r \<and>
       hierarchy r = PNone"
proof -
  have h1: "one_file ''t.qpdata'' truncated_container ''t.qpdata'' =
      Some (File truncated_container)"
    by (simp add: one_file_def)
  have h2: "first_at json_pattern truncated_container 0 1" by code_simp
  have h3: "(0::nat) < 1" by simp
  have h4: "first_at stream_marker truncated_container 1 17" by code_simp
  have h5: "javaobj_load strict_lib (drop (17 + 3) truncated_container) =
      Inl (OtherError ''ValueError'')"
    by (simp add: strict_lib_def)
  have r: "parse_qpdata strict_lib (one_file ''t.qpdata'' truncated_container) ''t.qpdata'' =
     Inr \<lparr>version = None, metadata = PDict [(PStr ''dataVersion'', PInt 1)],
          metadata_raw = None, hierarchy = PNone,
          raw_strings = [''x{\"dataVersion\":1}sr '']\<rparr>"
    (is "_ = Inr ?r")
    by code_simp
  from decode_error_is_swallowed[where fs = "one_file ''t.qpdata'' truncated_container"
      and p = "''t.qpdata''", OF h1 h2 h3 h4 h5] r
  have "hierarchy ?r = PNone" by simp
  with r show ?thesis by blast
qed

section \<open>\<open>extract_annotations\<close> returns a record for every object it visits\<close>








section \<open>The loop of \<open>get_qupath_info\<close>: errors of one file\<close>

lemma parse_failed_decode:
  assumes exists: "fs p = Some (File data)"
    and key: "first_at json_pattern data 0 js" "0 < js"
    and mark: "first_at stream_marker data js e"
    and fails: "javaobj_load L (drop (e + 3) data) = Inl x"
  shows "parse_qpdata L fs p = parse_qpdata (L\<lparr>javaobj_load := (\<lambda>bs. Inr PNone)\<rparr>) fs p"
proof -
  let ?base = "strings_step data (version_step L data empty_result)"
  have v: "version_step (L\<lparr>javaobj_load := (\<lambda>bs. Inr PNone)\<rparr>) data empty_result =
           version_step L data empty_result"
    by (simp add: version_step_def Let_def)
  have same: "r\<lparr>hierarchy := PNone\<rparr> = r" if "hierarchy r = PNone" for r :: qp_result
    using that by simp
  have m: "(?base\<lparr>metadata := w\<rparr>)\<lparr>hierarchy := PNone\<rparr> = ?base\<lparr>metadata := w\<rparr>" for w
    by (rule same) (simp add: base_hierarchy)
  have mr: "(?base\<lparr>metadata_raw := w\<rparr>)\<lparr>hierarchy := PNone\<rparr> = ?base\<lparr>metadata_raw := w\<rparr>" for w
    by (rule same) (simp add: base_hierarchy)
  show ?thesis
    unfolding parse_located[where fs = fs and p = p, OF exists key mark]
    using fails by (simp add: Let_def v m mr split: sum.splits error.splits)
qed

lemma parse_entry_raised:
  assumes "parse_qpdata L fs (os_path_join d ''data.qpdata'') = Inl err"
  shows "parse_entry L fs cl v idx d info =
           info\<lparr>img_data_path := Some (os_path_join d ''data.qpdata''),
                img_error := Some (exc_str L err)\<rparr>"
  using assms by (simp add: parse_entry_def try_body_def bindE_def Let_def)

lemma parse_entry_same_parse:
  assumes "parse_qpdata L fs (os_path_join d ''data.qpdata'') =
           parse_qpdata L' fs (os_path_join d ''data.qpdata'')"
    and "exc_str L = exc_str L'"
  shows "parse_entry L fs cl v idx d info = parse_entry L' fs cl v idx d info"
proof -
  have "try_body L fs cl v idx (os_path_join d ''data.qpdata'') i =
        try_body L' fs cl v idx (os_path_join d ''data.qpdata'') i" for i
    unfolding try_body_def assms(1) ..
  then show ?thesis
    unfolding parse_entry_def Let_def assms(2) by simp
qed

text \<open>
  Claim C4, as stated, fails. The decoder raises on the stream of the data file of image
  7. No error reaches the caller and none is recorded: the entry of the image has no
  \<open>error\<close> key, and only says that there is no hierarchy.
\<close>

theorem failed_decode_records_no_error:
  "process_images strict_lib project_fs ''proj/data'' [] False 1 [image_7] =
     Inr [\<lparr>img_uri = None, img_entryID = Some (PStr ''7''), img_summary = None,
           img_data_path = Some ''proj/data/7/data.qpdata'',
           img_metadata = Some (PDict [(PStr ''dataVersion'', PInt 1)]),
           img_parsed_data =
             Some \<lparr>has_metadata = True, has_hierarchy = False, pd_version = None\<rparr>,
           img_classes = Some [], img_error = None\<rparr>]"
  by code_simp

lemma process_image_split:
  "process_image L fs dp cl v idx img =
     bindE (image_head L fs dp v img)
       (\<lambda>(info, dir). Inr (case dir of
                              None \<Rightarrow> info
                            | Some d \<Rightarrow> parse_entry L fs cl v idx d info))"
  by (simp add: process_image_def image_head_def bindE_def Let_def
      split: sum.splits)

lemma process_images_entries:
  "process_images L fs dp cl v idx imgs = Inr infos \<longleftrightarrow>
     length infos = length imgs \<and>
     (\<forall>i<length imgs. process_image L fs dp cl v (idx + i) (imgs ! i) = Inr (infos ! i))"
proof (induction imgs arbitrary: idx infos)
  case Nil
  then show ?case by auto
next
  case (Cons img imgs)
  show ?case
  proof (cases infos)
    case Nil
    then show ?thesis by (auto simp: bindE_def split: sum.splits)
  next
    case (Cons info rest)
    have "(\<forall>i<Suc (length imgs).
             process_image L fs dp cl v (idx + i) ((img # imgs) ! i) = Inr ((info # rest) ! i)) \<longleftrightarrow>
          process_image L fs dp cl v idx img = Inr info \<and>
          (\<forall>i<length imgs. process_image L fs dp cl v (Suc idx + i) (imgs ! i) = Inr (rest ! i))"
      by (simp add: all_less_Suc_shift)
    with Cons Cons.IH[of "Suc idx" rest] show ?thesis
      by (auto simp: bindE_def split: sum.splits)
  qed
qed

lemma process_images_returns:
  assumes "\<forall>img \<in> set imgs. \<exists>h. image_head L fs dp v img = Inr h"
  shows "\<exists>infos. process_images L fs dp cl v idx imgs = Inr infos"
  using assms
proof (induction imgs arbitrary: idx)
  case Nil
  then show ?case by simp
next
  case (Cons img imgs)
  from Cons.prems obtain h where "image_head L fs dp v img = Inr h" by auto
  then obtain info where i: "process_image L fs dp cl v idx img = Inr info"
    by (cases h) (simp add: process_image_split bindE_def)
  from Cons.prems have "\<forall>img \<in> set imgs. \<exists>h. image_head L fs dp v img = Inr h" by simp
  from Cons.IH[OF this, of "Suc idx"] obtain infos
    where "process_images L fs dp cl v (Suc idx) imgs = Inr infos" ..
  with i show ?case by (simp add: bindE_def)
qed


text \<open>
  Claim C4, amended. A failure of the decoder on the stream of a data file is dropped
  inside \<open>parse_qpdata\<close>: the entry of the image is the one a decoder that returns
  \<open>None\<close> would give, so no error reaches the caller and none is recorded for it. For
  every image, the turn of the loop is the statements before the \<open>try\<close> followed by the
  \<open>try\<close>, and the \<open>try\<close> always ends with an entry: an exception that \<open>parse_qpdata\<close>
  raises on the data file is caught, and its text is stored under the key \<open>error\<close> of the
  entry. So the loop returns one entry for each image, in order, unless a statement
  before the \<open>try\<close> of some turn raises (a malformed project entry or summary file).
\<close>

theorem batch_survives_file_errors:
  "process_image L fs dp cl v idx img =
     bindE (image_head L fs dp v img)
       (\<lambda>(info, dir). Inr (case dir of
                              None \<Rightarrow> info
                            | Some d \<Rightarrow> parse_entry L fs cl v idx d info)) \<and>
   (\<forall>err. parse_qpdata L fs (os_path_join d ''data.qpdata'') = Inl err \<longrightarrow>
      parse_entry L fs cl v idx d info =
        info\<lparr>img_data_path := Some (os_path_join d ''data.qpdata''),
             img_error := Some (exc_str L err)\<rparr>) \<and>
   (\<forall>data js e x.
      fs (os_path_join d ''data.qpdata'') = Some (File data) \<and>
      first_at json_pattern data 0 js \<and> 0 < js \<and> first_at stream_marker data js e \<and>
      javaobj_load L (drop (e + 3) data) = Inl x \<longrightarrow>
      parse_entry L fs cl v idx d info =
        parse_entry (L\<lparr>javaobj_load := (\<lambda>bs. Inr PNone)\<rparr>) fs cl v idx d info) \<and>
   ((\<forall>img \<in> set imgs. \<exists>h. image_head L fs dp v img = Inr h) \<longrightarrow>
      (\<exists>infos. process_images L fs dp cl v idx imgs = Inr infos \<and>
         length infos = length imgs \<and>
         (\<forall>i<length imgs.
            process_image L fs dp cl v (idx + i) (imgs ! i) = Inr (infos ! i))))"
proof (intro conjI allI impI)
  show "process_image L fs dp cl v idx img =
     bindE (image_head L fs dp v img)
       (\<lambda>(info, dir). Inr (case dir of
                              None \<Rightarrow> info
                            | Some d \<Rightarrow> parse_entry L fs cl v idx d info))"
    by (rule process_image_split)
next
  fix err assume "parse_qpdata L fs (os_path_join d ''data.qpdata'') = Inl err"
  then show "parse_entry L fs cl v idx d info =
        info\<lparr>img_data_path := Some (os_path_join d ''data.qpdata''),
             img_error := Some (exc_str L err)\<rparr>"
    by (rule parse_entry_raised)
next
  fix data js e x
  assume "fs (os_path_join d ''data.qpdata'') = Some (File data) \<and>
      first_at json_pattern data 0 js \<and> 0 < js \<and> first_at stream_marker data js e \<and>
      javaobj_load L (drop (e + 3) data) = Inl x"
  then have "parse_qpdata L fs (os_path_join d ''data.qpdata'') =
      parse_qpdata (L\<lparr>javaobj_load := (\<lambda>bs. Inr PNone)\<rparr>) fs (os_path_join d ''data.qpdata'')"
    using parse_failed_decode[where fs = fs and p = "os_path_join d ''data.qpdata''"
        and data = data and js = js and e = e and L = L and x = x]
    by blast
  then show "parse_entry L fs cl v idx d info =
        parse_entry (L\<lparr>javaobj_load := (\<lambda>bs. Inr PNone)\<rparr>) fs cl v idx d info"
    by (rule parse_entry_same_parse) simp
next
  assume "\<forall>img \<in> set imgs. \<exists>h. image_head L fs dp v img = Inr h"
  then obtain infos where r: "process_images L fs dp cl v idx imgs = Inr infos"
    using process_images_returns by blast
  then have "length infos = length imgs \<and>
     (\<forall>i<length imgs. process_image L fs dp cl v (idx + i) (imgs ! i) = Inr (infos ! i))"
    by (simp add: process_images_entries)
  with r show "\<exists>infos. process_images L fs dp cl v idx imgs = Inr infos \<and>
         length infos = length imgs \<and>
         (\<forall>i<length imgs.
            process_image L fs dp cl v (idx + i) (imgs ! i) = Inr (infos ! i))"
    by blast
qed

theorem batch_survives_file_errors_witness:
  "process_images strict_lib project_fs ''proj/data'' [] False 1 [image_7, image_9] =
     Inr [\<lparr>img_uri = None, img_entryID = Some (PStr ''7''), img_summary = None,
           img_data_path = Some ''proj/data/7/data.qpdata'',
           img_metadata = Some (PDict [(PStr ''dataVersion'', PInt 1)]),
           img_parsed_data =
             Some \<lparr>has_metadata = True, has_hierarchy = False, pd_version = None\<rparr>,
           img_classes = Some [], img_error = None\<rparr>,
          \<lparr>img_uri = Some (PStr ''file:/slides/9.svs''), img_entryID = Some (PStr ''8''),
           img_summary = None,
           img_data_path = Some ''proj/data/8/data.qpdata'',
           img_metadata = None, img_parsed_data = None, img_classes = None,
           img_error = Some ''File not found: proj/data/8/data.qpdata''\<rparr>] \<and>
   (\<exists>infos. process_images strict_lib project_fs ''proj/data'' [] False 1 [image_7, image_9] =
        Inr infos \<and> length infos = 2) \<and>
   parse_entry strict_lib project_fs [] False 2 ''proj/data/8''
       (empty_info\<lparr>img_uri := Some (PStr ''file:/slides/9.svs''),
                   img_entryID := Some (PStr ''8'')\<rparr>) =
     empty_info\<lparr>img_uri := Some (PStr ''file:/slides/9.svs''),
                img_entryID := Some (PStr ''8''),
                img_data_path := Some ''proj/data/8/data.qpdata'',
                img_error := Some ''File not found: proj/data/8/data.qpdata''\<rparr> \<and>
   parse_entry strict_lib project_fs [] False 1 ''proj/data/7'' empty_info =
     parse_entry (strict_lib\<lparr>javaobj_load := (\<lambda>bs. Inr PNone)\<rparr>) project_fs [] False 1
       ''proj/data/7'' empty_info"
proof -
  have c1: "process_images strict_lib project_fs ''proj/data'' [] False 1 [image_7, image_9] =
     Inr [\<lparr>img_uri = None, img_entryID = Some (PStr ''7''), img_summary = None,
           img_data_path = Some ''proj/data/7/data.qpdata'',
           img_metadata = Some (PDict [(PStr ''dataVersion'', PInt 1)]),
           img_parsed_data =
             Some \<lparr>has_metadata = True, has_hierarchy = False, pd_version = None\<rparr>,
           img_classes = Some [], img_error = None\<rparr>,
          \<lparr>img_uri = Some (PStr ''file:/slides/9.svs''), img_entryID = Some (PStr ''8''),
           img_summary = None,
           img_data_path = Some ''proj/data/8/data.qpdata'',
           img_metadata = None, img_parsed_data = None, img_classes = None,
           img_error = Some ''File not found: proj/data/8/data.qpdata''\<rparr>]"
    by code_simp
  have h7: "image_head strict_lib project_fs ''proj/data'' False image_7 =
      Inr (empty_info\<lparr>img_entryID := Some (PStr ''7'')\<rparr>, Some ''proj/data/7'')"
    by code_simp
  have h9: "image_head strict_lib project_fs ''proj/data'' False image_9 =
      Inr (empty_info\<lparr>img_uri := Some (PStr ''file:/slides/9.svs''),
                      img_entryID := Some (PStr ''8'')\<rparr>, Some ''proj/data/8'')"
    by code_simp
  have heads: "\<forall>img \<in> set [image_7, image_9].
      \<exists>h. image_head strict_lib project_fs ''proj/data'' False img = Inr h"
    using h7 h9 by simp
  have "\<exists>infos. process_images strict_lib project_fs ''proj/data'' [] False 1 [image_7, image_9] =
        Inr infos \<and> length infos = length [image_7, image_9] \<and>
        (\<forall>i<length [image_7, image_9].
            process_image strict_lib project_fs ''proj/data'' [] False (1 + i)
              ([image_7, image_9] ! i) = Inr (infos ! i))"
    using batch_survives_file_errors[where L = strict_lib and fs = project_fs
        and dp = "''proj/data''" and cl = "[]" and v = False and idx = 1
        and imgs = "[image_7, image_9]",
        THEN conjunct2, THEN conjunct2, THEN conjunct2] heads
    by (rule mp)
  then have c2: "\<exists>infos. process_images strict_lib project_fs ''proj/data'' [] False 1
        [image_7, image_9] = Inr infos \<and> length infos = 2"
    by auto
  have j8: "os_path_join ''proj/data/8'' ''data.qpdata'' = ''proj/data/8/data.qpdata''"
    by code_simp
  have raised: "parse_qpdata strict_lib project_fs (os_path_join ''proj/data/8'' ''data.qpdata'') =
      Inl (FileNotFoundError ''File not found: proj/data/8/data.qpdata'')"
    by code_simp
  have msg: "exc_str strict_lib (FileNotFoundError ''File not found: proj/data/8/data.qpdata'')
      = ''File not found: proj/data/8/data.qpdata''"
    by code_simp
  have "parse_entry strict_lib project_fs [] False 2 ''proj/data/8''
       (empty_info\<lparr>img_uri := Some (PStr ''file:/slides/9.svs''),
                   img_entryID := Some (PStr ''8'')\<rparr>) =
     (empty_info\<lparr>img_uri := Some (PStr ''file:/slides/9.svs''),
                 img_entryID := Some (PStr ''8'')\<rparr>)
       \<lparr>img_data_path := Some (os_path_join ''proj/data/8'' ''data.qpdata''),
        img_error := Some (exc_str strict_lib
           (FileNotFoundError ''File not found: proj/data/8/data.qpdata''))\<rparr>"
    using batch_survives_file_errors[where L = strict_lib and fs = project_fs
        and cl = "[]" and v = False and idx = 2 and d = "''proj/data/8''"
        and info = "empty_info\<lparr>img_uri := Some (PStr ''file:/slides/9.svs''),
                   img_entryID := Some (PStr ''8'')\<rparr>",
        THEN conjunct2, THEN conjunct1] raised
    by blast
  then have c3: "parse_entry strict_lib project_fs [] False 2 ''proj/data/8''
       (empty_info\<lparr>img_uri := Some (PStr ''file:/slides/9.svs''),
                   img_entryID := Some (PStr ''8'')\<rparr>) =
     empty_info\<lparr>img_uri := Some (PStr ''file:/slides/9.svs''),
                img_entryID := Some (PStr ''8''),
                img_data_path := Some ''proj/data/8/data.qpdata'',
                img_error := Some ''File not found: proj/data/8/data.qpdata''\<rparr>"
    by (simp only: j8 msg)
  have f1: "project_fs (os_path_join ''proj/data/7'' ''data.qpdata'') =
      Some (File truncated_container)"
    by code_simp
  have f2: "first_at json_pattern truncated_container 0 1" by code_simp
  have f3: "first_at stream_marker truncated_container 1 17" by code_simp
  have f4: "javaobj_load strict_lib (drop (17 + 3) truncated_container) =
      Inl (OtherError ''ValueError'')"
    by (simp add: strict_lib_def)
  have c4: "parse_entry strict_lib project_fs [] False 1 ''proj/data/7'' empty_info =
     parse_entry (strict_lib\<lparr>javaobj_load := (\<lambda>bs. Inr PNone)\<rparr>) project_fs [] False 1
       ''proj/data/7'' empty_info"
    using batch_survives_file_errors[where L = strict_lib and fs = project_fs
        and cl = "[]" and v = False and idx = 1 and d = "''proj/data/7''"
        and info = empty_info,
        THEN conjunct2, THEN conjunct2, THEN conjunct1] f1 f2 f3 f4
    by blast
  from c1 c2 c3 c4 show ?thesis by (intro conjI)
qed

end
